theory Spec2Isabelle
  imports Main
begin

section \<open>The notebook \<open>digit_recognition.ipynb\<close>\<close>

text \<open>
  The repository is one Jupyter notebook. Its four code cells are a straight-line Python
  script whose every operation is a call into TensorFlow/Keras (or the builtin
  \<open>print\<close>). The framework is not part of the repository, so its calls are kept
  symbolic: running the script yields the list of external calls it performs, each with
  the values it passes; the result of a call is an opaque value that records which call
  produced it.
\<close>

subsection \<open>Syntax of the Python fragment\<close>

datatype expr =
    Name string
  | Attribute expr string
  | Call expr "expr list" "(string \<times> expr) list"
  | Str string
  | Num int
  | TupleE "expr list"
  | ListE "expr list"
  | BinOp expr string expr
  | Subscript expr expr
  | Lambda "string list" expr

datatype target = TName string | TTuple "target list"

datatype stmt =
    Import string string
  | Assign target expr
  | ExprStmt expr
  | If expr "stmt list" "stmt list"
  | While expr "stmt list"
  | For target expr "stmt list"
  | FunctionDef string "string list" "stmt list"
  | ClassDef string "stmt list"

text \<open>
  A line of a code cell is a statement or a comment; the number is the line of
  \<open>digit_recognition.ipynb\<close> it stands on. Blank lines are left out.
\<close>

datatype line = Stmt nat stmt | Comment nat string

subsection \<open>Values, external calls and errors\<close>

datatype val =
    VModule string
  | VBuiltin string
  | VAttr val string
  | VRes nat
  | VItem val nat
  | VStr string
  | VNum int
  | VTuple "val list"
  | VList "val list"

text \<open>
  \<open>VRes n\<close> is the value returned by the \<open>n\<close>-th external call of the run,
  \<open>VItem v i\<close> the \<open>i\<close>-th component obtained by unpacking the opaque value
  \<open>v\<close>, \<open>VAttr v a\<close> the attribute \<open>v.a\<close>.
\<close>

datatype event = Event (at_line: nat) (callee: val) (args: "val list") (kwargs: "(string \<times> val) list")

datatype error = NameError string | TypeError | ValueError | Unsupported

type_synonym env = "(string \<times> val) list"

text \<open>
  The state of a run: the variables of the notebook's global scope (latest binding
  first), the external calls performed so far, and the exception that stopped the run,
  if any.
\<close>

record state =
  env :: env
  trace :: "event list"
  raised :: "error option"

definition builtins :: "string list" where
  "builtins = [''print'', ''len'', ''range'', ''int'', ''str'', ''float'', ''list'', ''tuple'']"

definition lookup :: "env \<Rightarrow> string \<Rightarrow> error + val" where
  "lookup \<rho> x =
     (case map_of \<rho> x of
        Some v \<Rightarrow> Inr v
      | None \<Rightarrow> if x \<in> set builtins then Inr (VBuiltin x) else Inl (NameError x))"

fun callable :: "val \<Rightarrow> bool" where
  "callable (VBuiltin b) = True"
| "callable (VAttr v a) = True"
| "callable (VRes n) = True"
| "callable (VItem v i) = True"
| "callable _ = False"

subsection \<open>Evaluation of expressions\<close>

text \<open>
  Python evaluates the callee, then the positional arguments from left to right, then the
  keyword arguments, and then performs the call. A call is recorded as an event; its
  result is \<open>VRes n\<close> for the index \<open>n\<close> of the event. Operators, subscripts and
  lambdas would be computation written in the notebook itself; the fragment has no
  semantics for them.
\<close>

fun eval :: "nat \<Rightarrow> env \<Rightarrow> expr \<Rightarrow> event list \<Rightarrow> (error + val) \<times> event list"
and eval_list :: "nat \<Rightarrow> env \<Rightarrow> expr list \<Rightarrow> event list \<Rightarrow> (error + val list) \<times> event list"
and eval_kws :: "nat \<Rightarrow> env \<Rightarrow> (string \<times> expr) list \<Rightarrow> event list \<Rightarrow>
                   (error + (string \<times> val) list) \<times> event list"
where
  "eval ln \<rho> (Name x) tr = (lookup \<rho> x, tr)"
| "eval ln \<rho> (Attribute e a) tr =
     (case eval ln \<rho> e tr of
        (Inl err, tr1) \<Rightarrow> (Inl err, tr1)
      | (Inr v, tr1) \<Rightarrow> (Inr (VAttr v a), tr1))"
| "eval ln \<rho> (Call f es kws) tr =
     (case eval ln \<rho> f tr of
        (Inl err, tr1) \<Rightarrow> (Inl err, tr1)
      | (Inr fv, tr1) \<Rightarrow>
     (case eval_list ln \<rho> es tr1 of
        (Inl err, tr2) \<Rightarrow> (Inl err, tr2)
      | (Inr vs, tr2) \<Rightarrow>
     (case eval_kws ln \<rho> kws tr2 of
        (Inl err, tr3) \<Rightarrow> (Inl err, tr3)
      | (Inr kvs, tr3) \<Rightarrow>
          if callable fv then (Inr (VRes (length tr3)), tr3 @ [Event ln fv vs kvs])
          else (Inl TypeError, tr3))))"
| "eval ln \<rho> (Str s) tr = (Inr (VStr s), tr)"
| "eval ln \<rho> (Num n) tr = (Inr (VNum n), tr)"
| "eval ln \<rho> (TupleE es) tr =
     (case eval_list ln \<rho> es tr of
        (Inl err, tr1) \<Rightarrow> (Inl err, tr1)
      | (Inr vs, tr1) \<Rightarrow> (Inr (VTuple vs), tr1))"
| "eval ln \<rho> (ListE es) tr =
     (case eval_list ln \<rho> es tr of
        (Inl err, tr1) \<Rightarrow> (Inl err, tr1)
      | (Inr vs, tr1) \<Rightarrow> (Inr (VList vs), tr1))"
| "eval ln \<rho> (BinOp a opr b) tr = (Inl Unsupported, tr)"
| "eval ln \<rho> (Subscript a i) tr = (Inl Unsupported, tr)"
| "eval ln \<rho> (Lambda xs b) tr = (Inl Unsupported, tr)"
| "eval_list ln \<rho> [] tr = (Inr [], tr)"
| "eval_list ln \<rho> (e # es) tr =
     (case eval ln \<rho> e tr of
        (Inl err, tr1) \<Rightarrow> (Inl err, tr1)
      | (Inr v, tr1) \<Rightarrow>
     (case eval_list ln \<rho> es tr1 of
        (Inl err, tr2) \<Rightarrow> (Inl err, tr2)
      | (Inr vs, tr2) \<Rightarrow> (Inr (v # vs), tr2)))"
| "eval_kws ln \<rho> [] tr = (Inr [], tr)"
| "eval_kws ln \<rho> ((k, e) # kws) tr =
     (case eval ln \<rho> e tr of
        (Inl err, tr1) \<Rightarrow> (Inl err, tr1)
      | (Inr v, tr1) \<Rightarrow>
     (case eval_kws ln \<rho> kws tr1 of
        (Inl err, tr2) \<Rightarrow> (Inl err, tr2)
      | (Inr kvs, tr2) \<Rightarrow> (Inr ((k, v) # kvs), tr2)))"

subsection \<open>Assignment\<close>

text \<open>
  Unpacking a tuple or list value needs as many elements as there are targets
  (\<open>ValueError\<close> otherwise); numbers, modules and builtins are not iterable
  (\<open>TypeError\<close>). An opaque framework value is taken to unpack into exactly the
  components the target asks for, named \<open>VItem v 0\<close>, \<open>VItem v 1\<close>, ...
\<close>

fun components :: "val \<Rightarrow> nat \<Rightarrow> error + val list" where
  "components (VTuple vs) n = (if length vs = n then Inr vs else Inl ValueError)"
| "components (VList vs) n = (if length vs = n then Inr vs else Inl ValueError)"
| "components (VStr s) n = (if length s = n then Inr (map (\<lambda>c. VStr [c]) s) else Inl ValueError)"
| "components (VNum i) n = Inl TypeError"
| "components (VModule m) n = Inl TypeError"
| "components (VBuiltin b) n = Inl TypeError"
| "components v n = Inr (map (VItem v) [0..<n])"

fun bind :: "target \<Rightarrow> val \<Rightarrow> env \<Rightarrow> error + env"
and bind_all :: "target list \<Rightarrow> val list \<Rightarrow> env \<Rightarrow> error + env"
where
  "bind (TName x) v \<rho> = Inr ((x, v) # \<rho>)"
| "bind (TTuple ts) v \<rho> =
     (case components v (length ts) of Inl err \<Rightarrow> Inl err | Inr vs \<Rightarrow> bind_all ts vs \<rho>)"
| "bind_all [] vs \<rho> = Inr \<rho>"
| "bind_all (t # ts) [] \<rho> = Inl ValueError"
| "bind_all (t # ts) (v # vs) \<rho> =
     (case bind t v \<rho> of Inl err \<Rightarrow> Inl err | Inr \<rho>1 \<Rightarrow> bind_all ts vs \<rho>1)"

subsection \<open>Execution of statements and cells\<close>

text \<open>
  The notebook uses imports, assignments and expression statements only; compound
  statements and definitions are part of the syntax but have no semantics here. An
  exception keeps the calls already performed and stops the run.
\<close>

fun exec :: "nat \<Rightarrow> stmt \<Rightarrow> state \<Rightarrow> state" where
  "exec ln (Import m a) s = s\<lparr>env := (a, VModule m) # env s\<rparr>"
| "exec ln (Assign t e) s =
     (case eval ln (env s) e (trace s) of
        (Inl err, tr) \<Rightarrow> s\<lparr>trace := tr, raised := Some err\<rparr>
      | (Inr v, tr) \<Rightarrow>
          (case bind t v (env s) of
             Inl err \<Rightarrow> s\<lparr>trace := tr, raised := Some err\<rparr>
           | Inr \<rho> \<Rightarrow> s\<lparr>env := \<rho>, trace := tr\<rparr>))"
| "exec ln (ExprStmt e) s =
     (case eval ln (env s) e (trace s) of
        (Inl err, tr) \<Rightarrow> s\<lparr>trace := tr, raised := Some err\<rparr>
      | (Inr v, tr) \<Rightarrow> s\<lparr>trace := tr\<rparr>)"
| "exec ln (If c a b) s = s\<lparr>raised := Some Unsupported\<rparr>"
| "exec ln (While c b) s = s\<lparr>raised := Some Unsupported\<rparr>"
| "exec ln (For t e b) s = s\<lparr>raised := Some Unsupported\<rparr>"
| "exec ln (FunctionDef f xs b) s = s\<lparr>raised := Some Unsupported\<rparr>"
| "exec ln (ClassDef c b) s = s\<lparr>raised := Some Unsupported\<rparr>"

fun run_lines :: "line list \<Rightarrow> state \<Rightarrow> state" where
  "run_lines [] s = s"
| "run_lines (Comment n t # ls) s = run_lines ls s"
| "run_lines (Stmt n c # ls) s =
     (let s1 = exec n c s in if raised s1 = None then run_lines ls s1 else s1)"

definition run :: "line list \<Rightarrow> state" where
  "run ls = run_lines ls \<lparr>env = [], trace = [], raised = None\<rparr>"

subsection \<open>The code cells\<close>

text \<open>\<open>keras p\<close> is the expression \<open>tf.keras.p\<close>, \<open>layer n\<close> is \<open>tf.keras.layers.n\<close>.\<close>

abbreviation keras :: "string \<Rightarrow> expr" where
  "keras p \<equiv> Attribute (Attribute (Name ''tf'') ''keras'') p"

abbreviation layer :: "string \<Rightarrow> expr" where
  "layer n \<equiv> Attribute (keras ''layers'') n"

abbreviation dot :: "string \<Rightarrow> string \<Rightarrow> expr" where
  "dot obj m \<equiv> Attribute (Name obj) m"

text \<open>
  Cell 1 (lines 33--41):
  \<^verbatim>\<open>
  import tensorflow as tf
  # Loading our dataset
  mnist = tf.keras.datasets.mnist
  (x_train, y_train), (x_test, y_test) = mnist.load_data()
  # Normalizing the data
  x_train = tf.keras.utils.normalize(x_train, axis=1)
  x_test = tf.keras.utils.normalize(x_test, axis=1)
  \<close>
\<close>

definition cell_load :: "line list" where
  "cell_load =
    [Stmt 33 (Import ''tensorflow'' ''tf''),
     Comment 35 ''# Loading our dataset'',
     Stmt 36 (Assign (TName ''mnist'') (Attribute (keras ''datasets'') ''mnist'')),
     Stmt 37 (Assign (TTuple [TTuple [TName ''x_train'', TName ''y_train''],
                              TTuple [TName ''x_test'', TName ''y_test'']])
                     (Call (dot ''mnist'' ''load_data'') [] [])),
     Comment 39 ''# Normalizing the data'',
     Stmt 40 (Assign (TName ''x_train'')
                     (Call (Attribute (keras ''utils'') ''normalize'')
                           [Name ''x_train''] [(''axis'', Num 1)])),
     Stmt 41 (Assign (TName ''x_test'')
                     (Call (Attribute (keras ''utils'') ''normalize'')
                           [Name ''x_test''] [(''axis'', Num 1)]))]"

text \<open>
  Cell 2 (lines 90--99):
  \<^verbatim>\<open>
  # Defining our model to train
  model = tf.keras.models.Sequential()
  model.add(tf.keras.layers.Flatten(input_shape=(28, 28, 1)))
  model.add(tf.keras.layers.Dense(16, activation="relu"))
  model.add(tf.keras.layers.Dense(16, activation="relu"))
  model.add(tf.keras.layers.Dense(10, activation="softmax"))
  # Train the model
  model.compile(optimizer="adam", loss="sparse_categorical_crossentropy", metrics=["accuracy"])
  model.fit(x_train, y_train, epochs=3)
  \<close>
\<close>

definition cell_dense :: "line list" where
  "cell_dense =
    [Comment 90 ''# Defining our model to train'',
     Stmt 91 (Assign (TName ''model'') (Call (Attribute (keras ''models'') ''Sequential'') [] [])),
     Stmt 92 (ExprStmt (Call (dot ''model'' ''add'')
        [Call (layer ''Flatten'') [] [(''input_shape'', TupleE [Num 28, Num 28, Num 1])]] [])),
     Stmt 93 (ExprStmt (Call (dot ''model'' ''add'')
        [Call (layer ''Dense'') [Num 16] [(''activation'', Str ''relu'')]] [])),
     Stmt 94 (ExprStmt (Call (dot ''model'' ''add'')
        [Call (layer ''Dense'') [Num 16] [(''activation'', Str ''relu'')]] [])),
     Stmt 95 (ExprStmt (Call (dot ''model'' ''add'')
        [Call (layer ''Dense'') [Num 10] [(''activation'', Str ''softmax'')]] [])),
     Comment 97 ''# Train the model'',
     Stmt 98 (ExprStmt (Call (dot ''model'' ''compile'') []
        [(''optimizer'', Str ''adam''),
         (''loss'', Str ''sparse_categorical_crossentropy''),
         (''metrics'', ListE [Str ''accuracy''])])),
     Stmt 99 (ExprStmt (Call (dot ''model'' ''fit'')
        [Name ''x_train'', Name ''y_train''] [(''epochs'', Num 3)]))]"

text \<open>
  Cell 3 (lines 173--186):
  \<^verbatim>\<open>
  SimpleNet_model = tf.keras.models.Sequential()
  SimpleNet_model.add(tf.keras.layers.Conv2D(32, (3, 3), activation='relu', input_shape=(28, 28, 1)))
  SimpleNet_model.add(tf.keras.layers.BatchNormalization())
  SimpleNet_model.add(tf.keras.layers.MaxPooling2D((2, 2)))
  SimpleNet_model.add(tf.keras.layers.Conv2D(64, (3, 3), activation='relu'))
  SimpleNet_model.add(tf.keras.layers.BatchNormalization())
  SimpleNet_model.add(tf.keras.layers.MaxPooling2D((2, 2)))
  SimpleNet_model.add(tf.keras.layers.Flatten())
  SimpleNet_model.add(tf.keras.layers.Dense(64, activation='relu'))
  SimpleNet_model.add(tf.keras.layers.Dense(10, activation='softmax'))
  SimpleNet_model.compile(optimizer="adam", loss="sparse_categorical_crossentropy", metrics=["accuracy"])
  SimpleNet_model.fit(x_train, y_train, epochs=10, batch_size=64)
  \<close>
\<close>

definition cell_simplenet :: "line list" where
  "cell_simplenet =
    [Stmt 173 (Assign (TName ''SimpleNet_model'')
        (Call (Attribute (keras ''models'') ''Sequential'') [] [])),
     Stmt 175 (ExprStmt (Call (dot ''SimpleNet_model'' ''add'')
        [Call (layer ''Conv2D'') [Num 32, TupleE [Num 3, Num 3]]
           [(''activation'', Str ''relu''),
            (''input_shape'', TupleE [Num 28, Num 28, Num 1])]] [])),
     Stmt 176 (ExprStmt (Call (dot ''SimpleNet_model'' ''add'')
        [Call (layer ''BatchNormalization'') [] []] [])),
     Stmt 177 (ExprStmt (Call (dot ''SimpleNet_model'' ''add'')
        [Call (layer ''MaxPooling2D'') [TupleE [Num 2, Num 2]] []] [])),
     Stmt 178 (ExprStmt (Call (dot ''SimpleNet_model'' ''add'')
        [Call (layer ''Conv2D'') [Num 64, TupleE [Num 3, Num 3]]
           [(''activation'', Str ''relu'')]] [])),
     Stmt 179 (ExprStmt (Call (dot ''SimpleNet_model'' ''add'')
        [Call (layer ''BatchNormalization'') [] []] [])),
     Stmt 180 (ExprStmt (Call (dot ''SimpleNet_model'' ''add'')
        [Call (layer ''MaxPooling2D'') [TupleE [Num 2, Num 2]] []] [])),
     Stmt 181 (ExprStmt (Call (dot ''SimpleNet_model'' ''add'')
        [Call (layer ''Flatten'') [] []] [])),
     Stmt 182 (ExprStmt (Call (dot ''SimpleNet_model'' ''add'')
        [Call (layer ''Dense'') [Num 64] [(''activation'', Str ''relu'')]] [])),
     Stmt 183 (ExprStmt (Call (dot ''SimpleNet_model'' ''add'')
        [Call (layer ''Dense'') [Num 10] [(''activation'', Str ''softmax'')]] [])),
     Stmt 185 (ExprStmt (Call (dot ''SimpleNet_model'' ''compile'') []
        [(''optimizer'', Str ''adam''),
         (''loss'', Str ''sparse_categorical_crossentropy''),
         (''metrics'', ListE [Str ''accuracy''])])),
     Stmt 186 (ExprStmt (Call (dot ''SimpleNet_model'' ''fit'')
        [Name ''x_train'', Name ''y_train''] [(''epochs'', Num 10), (''batch_size'', Num 64)]))]"

text \<open>
  Cell 4 (lines 222--228):
  \<^verbatim>\<open>
  loss, accuracy = model.evaluate(x_test, y_test)
  # loss, accuracy = tf.keras.models.load_model("models/3Blue1Brown_1024.model").evaluate(x_test, y_test)
  # loss, accuracy = tf.keras.models.load_model("models/3Blue1Brown_2048.model").evaluate(x_test, y_test)
  # loss, accuracy = tf.keras.models.load_model("models/SimpleNet.model").evaluate(x_test, y_test)
  print("Loss: ", loss)
  print("Accuracy: ", accuracy)
  \<close>
\<close>

definition cell_evaluate :: "line list" where
  \<open>cell_evaluate =
    [Stmt 222 (Assign (TTuple [TName ''loss'', TName ''accuracy''])
        (Call (dot ''model'' ''evaluate'') [Name ''x_test'', Name ''y_test''] [])),
     Comment 223 ''# loss, accuracy = tf.keras.models.load_model("models/3Blue1Brown_1024.model").evaluate(x_test, y_test)'',
     Comment 224 ''# loss, accuracy = tf.keras.models.load_model("models/3Blue1Brown_2048.model").evaluate(x_test, y_test)'',
     Comment 225 ''# loss, accuracy = tf.keras.models.load_model("models/SimpleNet.model").evaluate(x_test, y_test)'',
     Stmt 227 (ExprStmt (Call (Name ''print'') [Str ''Loss: '', Name ''loss''] [])),
     Stmt 228 (ExprStmt (Call (Name ''print'') [Str ''Accuracy: '', Name ''accuracy''] []))]\<close>

text \<open>Run once from the start, the notebook executes its code cells in document order.\<close>

definition notebook :: "line list" where
  "notebook = cell_load @ cell_dense @ cell_simplenet @ cell_evaluate"

subsection \<open>Observations on a run\<close>

fun callee_name :: "val \<Rightarrow> string" where
  "callee_name (VAttr v a) = a"
| "callee_name (VBuiltin b) = b"
| "callee_name _ = []"

fun receiver :: "val \<Rightarrow> val option" where
  "receiver (VAttr v a) = Some v"
| "receiver _ = None"

definition called :: "string \<Rightarrow> event \<Rightarrow> bool" where
  "called m e = (callee_name (callee e) = m)"

definition calls_to :: "string \<Rightarrow> state \<Rightarrow> event list" where
  "calls_to m s = filter (called m) (trace s)"

definition variable :: "state \<Rightarrow> string \<Rightarrow> val option" where
  "variable s x = map_of (env s) x"

text \<open>The methods called on an object, in the order of the calls.\<close>

definition methods_on :: "val \<Rightarrow> state \<Rightarrow> string list" where
  "methods_on obj s =
     map (\<lambda>e. callee_name (callee e)) (filter (\<lambda>e. receiver (callee e) = Some obj) (trace s))"

text \<open>The constructor that made a value, and the layers added to a model object.\<close>

fun made_by :: "event list \<Rightarrow> val \<Rightarrow> string" where
  "made_by tr (VRes k) = (if k < length tr then callee_name (callee (tr ! k)) else [])"
| "made_by tr _ = []"

definition layers_of :: "val \<Rightarrow> state \<Rightarrow> string list" where
  "layers_of obj s =
     concat (map (\<lambda>e. map (made_by (trace s)) (args e))
                 (filter (\<lambda>e. callee e = VAttr obj ''add'') (trace s)))"

text \<open>
  The six steps the notebook is made of. A call belongs to a step by the framework
  function it calls; \<open>compile\<close> stands under the notebook's own comment
  \<open># Train the model\<close>.
\<close>

datatype step = Acquisition | Normalization | Definition | Training | Evaluation | Printing | Other

definition step_of :: "event \<Rightarrow> step" where
  "step_of e =
     (let n = callee_name (callee e) in
      if n = ''load_data'' then Acquisition
      else if n = ''normalize'' then Normalization
      else if n \<in> set [''Sequential'', ''add'', ''Flatten'', ''Dense'', ''Conv2D'',
                        ''BatchNormalization'', ''MaxPooling2D''] then Definition
      else if n \<in> set [''compile'', ''fit''] then Training
      else if n = ''evaluate'' then Evaluation
      else if n = ''print'' then Printing
      else Other)"

definition steps :: "state \<Rightarrow> step list" where
  "steps s = map step_of (trace s)"

definition calls_in_step :: "step \<Rightarrow> state \<Rightarrow> nat" where
  "calls_in_step st s = length (filter (\<lambda>e. step_of e = st) (trace s))"




text \<open>Where a callee comes from: the module, builtin or call result it is an attribute of.\<close>

fun root :: "val \<Rightarrow> val" where
  "root (VAttr v a) = root v"
| "root (VItem v i) = root v"
| "root v = v"

fun framework_value :: "val \<Rightarrow> bool" where
  "framework_value (VModule m) = (m = ''tensorflow'')"
| "framework_value (VRes n) = True"
| "framework_value _ = False"

definition framework_call :: "event \<Rightarrow> bool" where
  "framework_call e = framework_value (root (callee e))"

definition builtin_print :: "event \<Rightarrow> bool" where
  "builtin_print e = (callee e = VBuiltin ''print'')"

text \<open>The Keras functions that write a model to disk or read one back.\<close>

definition persistence_functions :: "string list" where
  "persistence_functions =
     [''save'', ''save_model'', ''save_weights'', ''export'', ''load_model'', ''load_weights'']"

definition persists :: "event \<Rightarrow> bool" where
  "persists e = (callee_name (callee e) \<in> set persistence_functions)"

subsection \<open>Observations on the source\<close>

text \<open>All nodes of an expression, each after the nodes evaluated before it.\<close>

fun nodes :: "expr \<Rightarrow> expr list"
and nodes_list :: "expr list \<Rightarrow> expr list"
and nodes_kws :: "(string \<times> expr) list \<Rightarrow> expr list"
where
  "nodes (Name x) = [Name x]"
| "nodes (Attribute e a) = nodes e @ [Attribute e a]"
| "nodes (Call f es kws) = nodes f @ nodes_list es @ nodes_kws kws @ [Call f es kws]"
| "nodes (Str s) = [Str s]"
| "nodes (Num n) = [Num n]"
| "nodes (TupleE es) = nodes_list es @ [TupleE es]"
| "nodes (ListE es) = nodes_list es @ [ListE es]"
| "nodes (BinOp a opr b) = nodes a @ nodes b @ [BinOp a opr b]"
| "nodes (Subscript a i) = nodes a @ nodes i @ [Subscript a i]"
| "nodes (Lambda xs b) = nodes b @ [Lambda xs b]"
| "nodes_list [] = []"
| "nodes_list (e # es) = nodes e @ nodes_list es"
| "nodes_kws [] = []"
| "nodes_kws ((k, e) # kws) = nodes e @ nodes_kws kws"

text \<open>A statement with all statements nested in it, and the expressions of a statement.\<close>

fun nested :: "stmt \<Rightarrow> stmt list" where
  "nested (If c a b) = If c a b # concat (map nested a) @ concat (map nested b)"
| "nested (While c b) = While c b # concat (map nested b)"
| "nested (For t e b) = For t e b # concat (map nested b)"
| "nested (FunctionDef f xs b) = FunctionDef f xs b # concat (map nested b)"
| "nested (ClassDef c b) = ClassDef c b # concat (map nested b)"
| "nested c = [c]"

fun own_exprs :: "stmt \<Rightarrow> expr list" where
  "own_exprs (Assign t e) = [e]"
| "own_exprs (ExprStmt e) = [e]"
| "own_exprs (If c a b) = [c]"
| "own_exprs (While c b) = [c]"
| "own_exprs (For t e b) = [e]"
| "own_exprs _ = []"

fun statements :: "line list \<Rightarrow> stmt list" where
  "statements [] = []"
| "statements (Stmt n c # ls) = nested c @ statements ls"
| "statements (Comment n t # ls) = statements ls"

definition expressions :: "line list \<Rightarrow> expr list" where
  "expressions ls = concat (map nodes (concat (map own_exprs (statements ls))))"

fun is_loop :: "stmt \<Rightarrow> bool" where
  "is_loop (While c b) = True"
| "is_loop (For t e b) = True"
| "is_loop _ = False"

fun is_conditional :: "stmt \<Rightarrow> bool" where
  "is_conditional (If c a b) = True"
| "is_conditional _ = False"

fun is_function_def :: "stmt \<Rightarrow> bool" where
  "is_function_def (FunctionDef f xs b) = True"
| "is_function_def _ = False"

fun is_class_def :: "stmt \<Rightarrow> bool" where
  "is_class_def (ClassDef c b) = True"
| "is_class_def _ = False"

fun is_lambda :: "expr \<Rightarrow> bool" where
  "is_lambda (Lambda xs b) = True"
| "is_lambda _ = False"

fun is_operation :: "expr \<Rightarrow> bool" where
  "is_operation (BinOp a opr b) = True"
| "is_operation (Subscript a i) = True"
| "is_operation _ = False"

fun is_call :: "expr \<Rightarrow> bool" where
  "is_call (Call f es kws) = True"
| "is_call _ = False"

text \<open>
  The call sites of the source in the order of evaluation: the line of each call and the
  name it calls.
\<close>

fun called_name :: "expr \<Rightarrow> string" where
  "called_name (Call (Attribute e a) es kws) = a"
| "called_name (Call (Name x) es kws) = x"
| "called_name _ = []"

fun call_sites :: "line list \<Rightarrow> (nat \<times> string) list" where
  "call_sites [] = []"
| "call_sites (Comment n t # ls) = call_sites ls"
| "call_sites (Stmt n c # ls) =
     map (\<lambda>e. (n, called_name e)) (filter is_call (concat (map nodes (own_exprs c)))) @
     call_sites ls"

definition executed_sites :: "state \<Rightarrow> (nat \<times> string) list" where
  "executed_sites s = map (\<lambda>e. (at_line e, callee_name (callee e))) (trace s)"

text \<open>Whether a word occurs in a text, and the identifiers of a statement.\<close>

fun starts_with :: "string \<Rightarrow> string \<Rightarrow> bool" where
  "starts_with s [] = True"
| "starts_with [] (c # w) = False"
| "starts_with (d # s) (c # w) = (d = c \<and> starts_with s w)"

fun occurs_in :: "string \<Rightarrow> string \<Rightarrow> bool" where
  "occurs_in w [] = (w = [])"
| "occurs_in w (c # s) = (starts_with (c # s) w \<or> occurs_in w s)"

fun ident_of :: "expr \<Rightarrow> string list" where
  "ident_of (Name x) = [x]"
| "ident_of (Attribute e a) = [a]"
| "ident_of _ = []"

fun mentions :: "string \<Rightarrow> line \<Rightarrow> bool" where
  "mentions w (Comment n t) = occurs_in w t"
| "mentions w (Stmt n c) =
     (w \<in> set (concat (map ident_of (expressions [Stmt n c]))))"

fun line_no :: "line \<Rightarrow> nat" where
  "line_no (Stmt n c) = n"
| "line_no (Comment n t) = n"

fun is_comment :: "line \<Rightarrow> bool" where
  "is_comment (Comment n t) = True"
| "is_comment (Stmt n c) = False"

text \<open>Whether a call is given a value as a positional or keyword argument.\<close>

definition passes :: "val \<Rightarrow> event \<Rightarrow> bool" where
  "passes v e = (v \<in> set (args e) \<or> v \<in> set (map snd (kwargs e)))"


text \<open>
  The calls that define a model object: the call that created it, the calls that
  constructed the layers added to it, and the \<open>add\<close> calls on it; in the order of the
  run.
\<close>

fun creation :: "event list \<Rightarrow> val \<Rightarrow> event list" where
  "creation tr (VRes k) = (if k < length tr then [tr ! k] else [])"
| "creation tr _ = []"

definition additions :: "val \<Rightarrow> state \<Rightarrow> event list" where
  "additions obj s = filter (\<lambda>e. callee e = VAttr obj ''add'') (trace s)"

definition constructions :: "val \<Rightarrow> state \<Rightarrow> event list" where
  "constructions obj s =
     concat (map (creation (trace s)) (concat (map args (additions obj s))))"

definition definition_calls :: "val \<Rightarrow> state \<Rightarrow> event list" where
  "definition_calls obj s =
     filter (\<lambda>e. e \<in> set (creation (trace s) obj @ constructions obj s @ additions obj s))
            (trace s)"

text \<open>The line of a call and the name it calls.\<close>

definition site_of :: "event \<Rightarrow> nat \<times> string" where
  "site_of e = (at_line e, callee_name (callee e))"

subsection \<open>The values of the run\<close>

text \<open>
  Names for the values the run of the notebook handles. The first external call is
  \<open>mnist.load_data()\<close>; its result unpacks into \<open>(x_train, y_train), (x_test, y_test)\<close>.
  Calls 1 and 2 are the two \<open>normalize\<close> calls, calls 3 and 14 the two
  \<open>Sequential()\<close> calls, call 35 is \<open>evaluate\<close> (lemma \<open>notebook_run\<close>).
\<close>

abbreviation tfk :: "string \<Rightarrow> string \<Rightarrow> val" where
  "tfk p n \<equiv> VAttr (VAttr (VAttr (VModule ''tensorflow'') ''keras'') p) n"

abbreviation x_train_raw :: val where "x_train_raw \<equiv> VItem (VItem (VRes 0) 0) 0"
abbreviation y_train_loaded :: val where "y_train_loaded \<equiv> VItem (VItem (VRes 0) 0) 1"
abbreviation x_test_raw :: val where "x_test_raw \<equiv> VItem (VItem (VRes 0) 1) 0"
abbreviation y_test_loaded :: val where "y_test_loaded \<equiv> VItem (VItem (VRes 0) 1) 1"
abbreviation x_train_normalized :: val where "x_train_normalized \<equiv> VRes 1"
abbreviation x_test_normalized :: val where "x_test_normalized \<equiv> VRes 2"
abbreviation dense_model :: val where "dense_model \<equiv> VRes 3"
abbreviation simplenet_model :: val where "simplenet_model \<equiv> VRes 14"
abbreviation test_metrics :: val where "test_metrics \<equiv> VRes 35"

section \<open>The run of the notebook\<close>

lemmas cells = notebook_def cell_load_def cell_dense_def cell_simplenet_def cell_evaluate_def

text \<open>
  Run once from the start, the notebook raises nothing, ends with twelve bindings and has
  performed 38 external calls.
\<close>

lemma notebook_run:
  "run notebook =
   \<lparr>env =
     [(''accuracy'', VItem test_metrics 1), (''loss'', VItem test_metrics 0),
      (''SimpleNet_model'', simplenet_model), (''model'', dense_model),
      (''x_test'', x_test_normalized), (''x_train'', x_train_normalized),
      (''y_test'', y_test_loaded), (''x_test'', x_test_raw),
      (''y_train'', y_train_loaded), (''x_train'', x_train_raw),
      (''mnist'', tfk ''datasets'' ''mnist''),
      (''tf'', VModule ''tensorflow'')],
    trace =
     [Event 37 (VAttr (tfk ''datasets'' ''mnist'') ''load_data'') [] [],
      Event 40 (tfk ''utils'' ''normalize'') [x_train_raw] [(''axis'', VNum 1)],
      Event 41 (tfk ''utils'' ''normalize'') [x_test_raw] [(''axis'', VNum 1)],
      Event 91 (tfk ''models'' ''Sequential'') [] [],
      Event 92 (tfk ''layers'' ''Flatten'') [] [(''input_shape'', VTuple [VNum 28, VNum 28, VNum 1])],
      Event 92 (VAttr dense_model ''add'') [VRes 4] [],
      Event 93 (tfk ''layers'' ''Dense'') [VNum 16] [(''activation'', VStr ''relu'')],
      Event 93 (VAttr dense_model ''add'') [VRes 6] [],
      Event 94 (tfk ''layers'' ''Dense'') [VNum 16] [(''activation'', VStr ''relu'')],
      Event 94 (VAttr dense_model ''add'') [VRes 8] [],
      Event 95 (tfk ''layers'' ''Dense'') [VNum 10] [(''activation'', VStr ''softmax'')],
      Event 95 (VAttr dense_model ''add'') [VRes 10] [],
      Event 98 (VAttr dense_model ''compile'') []
        [(''optimizer'', VStr ''adam''), (''loss'', VStr ''sparse_categorical_crossentropy''),
         (''metrics'', VList [VStr ''accuracy''])],
      Event 99 (VAttr dense_model ''fit'') [x_train_normalized, y_train_loaded] [(''epochs'', VNum 3)],
      Event 173 (tfk ''models'' ''Sequential'') [] [],
      Event 175 (tfk ''layers'' ''Conv2D'') [VNum 32, VTuple [VNum 3, VNum 3]] [(''activation'', VStr ''relu''), (''input_shape'', VTuple [VNum 28, VNum 28, VNum 1])],
      Event 175 (VAttr simplenet_model ''add'') [VRes 15] [],
      Event 176 (tfk ''layers'' ''BatchNormalization'') [] [],
      Event 176 (VAttr simplenet_model ''add'') [VRes 17] [],
      Event 177 (tfk ''layers'' ''MaxPooling2D'') [VTuple [VNum 2, VNum 2]] [],
      Event 177 (VAttr simplenet_model ''add'') [VRes 19] [],
      Event 178 (tfk ''layers'' ''Conv2D'') [VNum 64, VTuple [VNum 3, VNum 3]] [(''activation'', VStr ''relu'')],
      Event 178 (VAttr simplenet_model ''add'') [VRes 21] [],
      Event 179 (tfk ''layers'' ''BatchNormalization'') [] [],
      Event 179 (VAttr simplenet_model ''add'') [VRes 23] [],
      Event 180 (tfk ''layers'' ''MaxPooling2D'') [VTuple [VNum 2, VNum 2]] [],
      Event 180 (VAttr simplenet_model ''add'') [VRes 25] [],
      Event 181 (tfk ''layers'' ''Flatten'') [] [],
      Event 181 (VAttr simplenet_model ''add'') [VRes 27] [],
      Event 182 (tfk ''layers'' ''Dense'') [VNum 64] [(''activation'', VStr ''relu'')],
      Event 182 (VAttr simplenet_model ''add'') [VRes 29] [],
      Event 183 (tfk ''layers'' ''Dense'') [VNum 10] [(''activation'', VStr ''softmax'')],
      Event 183 (VAttr simplenet_model ''add'') [VRes 31] [],
      Event 185 (VAttr simplenet_model ''compile'') []
        [(''optimizer'', VStr ''adam''), (''loss'', VStr ''sparse_categorical_crossentropy''),
         (''metrics'', VList [VStr ''accuracy''])],
      Event 186 (VAttr simplenet_model ''fit'') [x_train_normalized, y_train_loaded] [(''epochs'', VNum 10), (''batch_size'', VNum 64)],
      Event 222 (VAttr dense_model ''evaluate'') [x_test_normalized, y_test_loaded] [],
      Event 227 (VBuiltin ''print'') [VStr ''Loss: '', VItem test_metrics 0] [],
      Event 228 (VBuiltin ''print'') [VStr ''Accuracy: '', VItem test_metrics 1] []],
    raised = None\<rparr>"
  by (simp add: run_def cells lookup_def builtins_def)

section \<open>Properties of every run\<close>

text \<open>Comments are not executed.\<close>

lemma run_lines_skips_comments:
  "run_lines (filter (\<lambda>l. \<not> is_comment l) ls) s = run_lines ls s"
  by (induction ls s rule: run_lines.induct) (simp_all add: Let_def)

lemma run_skips_comments: "run (filter (\<lambda>l. \<not> is_comment l) ls) = run ls"
  by (simp add: run_def run_lines_skips_comments)

text \<open>
  An expression that evaluates without an exception appends one event for each of its
  call nodes, on the line of its statement, and leaves the earlier events as they are.
\<close>

lemma eval_performs_calls:
  "eval ln \<rho> e tr = (Inr v, tr') \<Longrightarrow>
     \<exists>new. tr' = tr @ new \<and>
           map at_line new = replicate (length (filter is_call (nodes e))) ln"
  "eval_list ln \<rho> es tr = (Inr vs, tr') \<Longrightarrow>
     \<exists>new. tr' = tr @ new \<and>
           map at_line new = replicate (length (filter is_call (nodes_list es))) ln"
  "eval_kws ln \<rho> kws tr = (Inr kvs, tr') \<Longrightarrow>
     \<exists>new. tr' = tr @ new \<and>
           map at_line new = replicate (length (filter is_call (nodes_kws kws))) ln"
proof (induction ln \<rho> e tr and ln \<rho> es tr and ln \<rho> kws tr
       arbitrary: v tr' and vs tr' and kvs tr' rule: eval_eval_list_eval_kws.induct)
  case (3 ln \<rho> f es kws tr)
  then show ?case
    by (fastforce split: prod.splits sum.splits if_splits
          simp: replicate_add replicate_append_same)
qed (fastforce split: prod.splits sum.splits if_splits simp: replicate_add)+

lemma exec_performs_calls:
  assumes "raised s = None" and "raised (exec n c s) = None"
  shows "\<exists>new. trace (exec n c s) = trace s @ new \<and>
               map at_line new = map fst (call_sites [Stmt n c])"
  using assms
  by (cases c)
     (auto split: prod.splits sum.splits dest!: eval_performs_calls(1)
           simp: comp_def map_replicate_const)

lemma run_lines_performs_calls:
  "raised s = None \<Longrightarrow> raised (run_lines ls s) = None \<Longrightarrow>
     \<exists>new. trace (run_lines ls s) = trace s @ new \<and>
           map at_line new = map fst (call_sites ls)"
proof (induction ls s rule: run_lines.induct)
  case (1 s)
  then show ?case by simp
next
  case (2 n t ls s)
  then show ?case by simp
next
  case (3 n c ls s)
  let ?s1 = "exec n c s"
  from 3(3) have ok1: "raised ?s1 = None"
    by (simp add: Let_def split: if_splits)
  from exec_performs_calls [OF 3(2) ok1] obtain new1 where
    n1: "trace ?s1 = trace s @ new1" "map at_line new1 = map fst (call_sites [Stmt n c])"
    by blast
  from 3(3) ok1 have ok2: "raised (run_lines ls ?s1) = None"
    by (simp add: Let_def)
  from 3(1) [OF refl ok1 ok1 ok2] obtain new2 where
    n2: "trace (run_lines ls ?s1) = trace ?s1 @ new2" "map at_line new2 = map fst (call_sites ls)"
    by blast
  have "trace (run_lines (Stmt n c # ls) s) = trace s @ (new1 @ new2)"
    using ok1 n1(1) n2(1) by (simp add: Let_def)
  moreover have "map at_line (new1 @ new2) = map fst (call_sites (Stmt n c # ls))"
    using n1(2) n2(2) by simp
  ultimately show ?case by blast
qed

text \<open>
  A run that raises nothing has performed the call sites of its source line by line, each
  once and in source order; and its source has no compound statement, since this
  fragment gives them no semantics.
\<close>

lemma run_performs_each_call_once:
  "raised (run ls) = None \<Longrightarrow> map at_line (trace (run ls)) = map fst (call_sites ls)"
  using run_lines_performs_calls [of "\<lparr>env = [], trace = [], raised = None\<rparr>" ls]
  by (auto simp: run_def)

lemma exec_simple:
  "raised (exec n c s) = None \<Longrightarrow> nested c = [c] \<and> \<not> is_loop c \<and> \<not> is_conditional c \<and>
     \<not> is_function_def c \<and> \<not> is_class_def c"
  by (cases c) simp_all

lemma run_lines_straight_line:
  "raised (run_lines ls s) = None \<Longrightarrow>
     \<not> list_ex is_loop (statements ls) \<and> \<not> list_ex is_conditional (statements ls) \<and>
     \<not> list_ex is_function_def (statements ls) \<and> \<not> list_ex is_class_def (statements ls)"
proof (induction ls s rule: run_lines.induct)
  case (3 n c ls s)
  from 3(2) have ok1: "raised (exec n c s) = None"
    by (simp add: Let_def split: if_splits)
  with 3(2) have "raised (run_lines ls (exec n c s)) = None"
    by (simp add: Let_def)
  with 3(1) ok1 exec_simple [OF ok1] show ?case by simp
qed simp_all

section \<open>The claims\<close>

lemmas observations =
  calls_to_def called_def variable_def methods_on_def layers_of_def steps_def step_of_def
  calls_in_step_def

subsection \<open>C1: which models are evaluated\<close>

text \<open>
  C1, as stated: the evaluation step computes test accuracy for both the dense model and
  the SimpleNet model. It does not: the object bound to \<open>SimpleNet_model\<close>, the one
  the convolutional layers were added to, is trained (\<open>fit\<close>) and no \<open>evaluate\<close> is
  ever called on it.
\<close>

theorem simplenet_never_evaluated:
  "variable (run notebook) ''SimpleNet_model'' = Some simplenet_model \<and>
   ''fit'' \<in> set (methods_on simplenet_model (run notebook)) \<and>
   ''evaluate'' \<notin> set (methods_on simplenet_model (run notebook)) \<and>
   length (calls_to ''evaluate'' (run notebook)) = 1"
  by (simp add: notebook_run observations)

text \<open>
  C1, amended: the program trains both architectures, the dense model first, each on the
  normalized training images and the training labels. Its evaluation and reporting step
  is one \<open>evaluate\<close> call, on the dense model (the object bound to \<open>model\<close>, with the
  layers Flatten, Dense, Dense, Dense), on the normalized test images and the test
  labels; its result is unpacked into \<open>loss\<close> and \<open>accuracy\<close>, which the two
  \<open>print\<close> calls report. The SimpleNet model is trained and not evaluated: line 222 is
  the only \<open>evaluate\<close> call site of the source, and of the comments on lines 223--225
  that mention \<open>evaluate\<close> only the one on line 225 mentions SimpleNet, and it would
  load a saved model (\<open>load_model\<close>).
\<close>

theorem evaluates_dense_model_only:
  "variable (run notebook) ''model'' = Some dense_model \<and>
   variable (run notebook) ''SimpleNet_model'' = Some simplenet_model \<and>
   layers_of dense_model (run notebook) = [''Flatten'', ''Dense'', ''Dense'', ''Dense''] \<and>
   layers_of simplenet_model (run notebook) =
     [''Conv2D'', ''BatchNormalization'', ''MaxPooling2D'',
      ''Conv2D'', ''BatchNormalization'', ''MaxPooling2D'',
      ''Flatten'', ''Dense'', ''Dense''] \<and>
   map callee (calls_to ''fit'' (run notebook)) =
     [VAttr dense_model ''fit'', VAttr simplenet_model ''fit''] \<and>
   map callee (calls_to ''evaluate'' (run notebook)) = [VAttr dense_model ''evaluate''] \<and>
   map args (calls_to ''fit'' (run notebook)) =
     [[x_train_normalized, y_train_loaded], [x_train_normalized, y_train_loaded]] \<and>
   trace (run notebook) ! 0 =
     Event 37 (VAttr (tfk ''datasets'' ''mnist'') ''load_data'') [] [] \<and>
   trace (run notebook) ! 1 =
     Event 40 (tfk ''utils'' ''normalize'') [x_train_raw] [(''axis'', VNum 1)] \<and>
   trace (run notebook) ! 2 =
     Event 41 (tfk ''utils'' ''normalize'') [x_test_raw] [(''axis'', VNum 1)] \<and>
   trace (run notebook) ! 35 =
     Event 222 (VAttr dense_model ''evaluate'') [x_test_normalized, y_test_loaded] [] \<and>
   calls_to ''evaluate'' (run notebook) =
     [Event 222 (VAttr dense_model ''evaluate'') [x_test_normalized, y_test_loaded] []] \<and>
   map args (calls_to ''evaluate'' (run notebook)) = [[x_test_normalized, y_test_loaded]] \<and>
   variable (run notebook) ''loss'' = Some (VItem test_metrics 0) \<and>
   variable (run notebook) ''accuracy'' = Some (VItem test_metrics 1) \<and>
   calls_to ''print'' (run notebook) =
     [Event 227 (VBuiltin ''print'') [VStr ''Loss: '', VItem test_metrics 0] [],
      Event 228 (VBuiltin ''print'') [VStr ''Accuracy: '', VItem test_metrics 1] []] \<and>
   filter (\<lambda>p. snd p = ''evaluate'') (call_sites notebook) = [(222, ''evaluate'')] \<and>
   filter (\<lambda>l. \<not> is_comment l \<and> mentions ''evaluate'' l) notebook =
     [Stmt 222 (Assign (TTuple [TName ''loss'', TName ''accuracy''])
        (Call (dot ''model'' ''evaluate'') [Name ''x_test'', Name ''y_test''] []))] \<and>
   map line_no (filter (\<lambda>l. is_comment l \<and> mentions ''evaluate'' l) notebook) =
     [223, 224, 225] \<and>
   map line_no (filter (\<lambda>l. mentions ''evaluate'' l \<and> mentions ''SimpleNet'' l) notebook) =
     [225] \<and>
   map line_no (filter (\<lambda>l. is_comment l \<and> mentions ''evaluate'' l \<and>
                            mentions ''SimpleNet'' l \<and> mentions ''load_model'' l) notebook) =
     [225]"
  unfolding notebook_run
  by (simp add: observations cells expressions_def)

subsection \<open>C2: the order of the steps\<close>



subsection \<open>C3: only normalized images reach training and evaluation\<close>


subsection \<open>C4: calls per step\<close>

text \<open>
  C4, as stated: each of the six steps is a single call to the external library. It is
  not: normalization, model definition, training and printing each take more than one
  call.
\<close>

theorem steps_not_single_calls:
  "calls_in_step Normalization (run notebook) = 2 \<and>
   calls_in_step Definition (run notebook) = 28 \<and>
   calls_in_step Training (run notebook) = 4 \<and>
   calls_in_step Printing (run notebook) = 2"
  by (simp add: notebook_run observations)

text \<open>
  C4, amended: dataset acquisition and evaluation are one call each. Normalization is two
  calls (one on the training images, one on the test images), model definition 28 calls
  (for each model one \<open>Sequential()\<close>, and a layer constructor and an \<open>add\<close> per
  layer: 9 calls for the dense model with its 4 layers, 19 for SimpleNet with its 9),
  training four calls (\<open>compile\<close> and \<open>fit\<close> for each model), printing two calls of
  \<open>print\<close>. The run performs no other call.
\<close>

theorem calls_per_step:
  "map (\<lambda>st. calls_in_step st (run notebook))
       [Acquisition, Normalization, Definition, Training, Evaluation, Printing, Other] =
     [1, 2, 28, 4, 1, 2, 0] \<and>
   length (filter (\<lambda>e. step_of e = Definition) (take 14 (trace (run notebook)))) = 9 \<and>
   length (filter (\<lambda>e. step_of e = Definition) (drop 14 (trace (run notebook)))) = 19 \<and>
   map callee (calls_to ''compile'' (run notebook)) =
     [VAttr dense_model ''compile'', VAttr simplenet_model ''compile''] \<and>
   map callee (calls_to ''fit'' (run notebook)) =
     [VAttr dense_model ''fit'', VAttr simplenet_model ''fit''] \<and>
   distinct (trace (run notebook)) \<and>
   filter (\<lambda>e. step_of e = Acquisition) (trace (run notebook)) =
     [Event 37 (VAttr (tfk ''datasets'' ''mnist'') ''load_data'') [] []] \<and>
   filter (\<lambda>e. step_of e = Normalization) (trace (run notebook)) =
     [Event 40 (tfk ''utils'' ''normalize'') [x_train_raw] [(''axis'', VNum 1)],
      Event 41 (tfk ''utils'' ''normalize'') [x_test_raw] [(''axis'', VNum 1)]] \<and>
   filter (\<lambda>e. step_of e = Definition) (trace (run notebook)) =
     definition_calls dense_model (run notebook) @
     definition_calls simplenet_model (run notebook) \<and>
   map site_of (creation (trace (run notebook)) dense_model) = [(91, ''Sequential'')] \<and>
   map site_of (constructions dense_model (run notebook)) =
     [(92, ''Flatten''), (93, ''Dense''), (94, ''Dense''), (95, ''Dense'')] \<and>
   map site_of (additions dense_model (run notebook)) =
     [(92, ''add''), (93, ''add''), (94, ''add''), (95, ''add'')] \<and>
   map site_of (definition_calls dense_model (run notebook)) =
     [(91, ''Sequential''), (92, ''Flatten''), (92, ''add''), (93, ''Dense''), (93, ''add''),
      (94, ''Dense''), (94, ''add''), (95, ''Dense''), (95, ''add'')] \<and>
   length (definition_calls dense_model (run notebook)) = 9 \<and>
   map site_of (creation (trace (run notebook)) simplenet_model) = [(173, ''Sequential'')] \<and>
   map site_of (constructions simplenet_model (run notebook)) =
     [(175, ''Conv2D''), (176, ''BatchNormalization''), (177, ''MaxPooling2D''),
      (178, ''Conv2D''), (179, ''BatchNormalization''), (180, ''MaxPooling2D''),
      (181, ''Flatten''), (182, ''Dense''), (183, ''Dense'')] \<and>
   map site_of (additions simplenet_model (run notebook)) =
     [(175, ''add''), (176, ''add''), (177, ''add''), (178, ''add''), (179, ''add''),
      (180, ''add''), (181, ''add''), (182, ''add''), (183, ''add'')] \<and>
   map site_of (definition_calls simplenet_model (run notebook)) =
     [(173, ''Sequential''), (175, ''Conv2D''), (175, ''add''),
      (176, ''BatchNormalization''), (176, ''add''), (177, ''MaxPooling2D''), (177, ''add''),
      (178, ''Conv2D''), (178, ''add''), (179, ''BatchNormalization''), (179, ''add''),
      (180, ''MaxPooling2D''), (180, ''add''), (181, ''Flatten''), (181, ''add''),
      (182, ''Dense''), (182, ''add''), (183, ''Dense''), (183, ''add'')] \<and>
   length (definition_calls simplenet_model (run notebook)) = 19 \<and>
   map (\<lambda>e. (site_of e, receiver (callee e)))
       (filter (\<lambda>e. step_of e = Training) (trace (run notebook))) =
     [((98, ''compile''), Some dense_model), ((99, ''fit''), Some dense_model),
      ((185, ''compile''), Some simplenet_model), ((186, ''fit''), Some simplenet_model)] \<and>
   map (\<lambda>e. (site_of e, receiver (callee e)))
       (filter (\<lambda>e. step_of e = Evaluation) (trace (run notebook))) =
     [((222, ''evaluate''), Some dense_model)] \<and>
   map (\<lambda>e. (site_of e, callee e))
       (filter (\<lambda>e. step_of e = Printing) (trace (run notebook))) =
     [((227, ''print''), VBuiltin ''print''), ((228, ''print''), VBuiltin ''print'')]"
  by (simp add: notebook_run observations additions_def constructions_def
        definition_calls_def site_of_def)

subsection \<open>C5: a straight line\<close>

text \<open>
  C5: the notebook has no loop, no conditional and no function definition (no \<open>def\<close>,
  no \<open>lambda\<close>) anywhere in its code cells; its 27 statements run to the end, and
  the calls performed are exactly the call sites of the source (line and called name),
  in source order, each once: the 38 call sites are pairwise distinct.
\<close>

theorem straight_line_each_call_once:
  "\<not> list_ex is_loop (statements notebook) \<and>
   \<not> list_ex is_conditional (statements notebook) \<and>
   \<not> list_ex is_function_def (statements notebook) \<and>
   \<not> list_ex is_lambda (expressions notebook) \<and>
   length (statements notebook) = 27 \<and>
   raised (run notebook) = None \<and>
   executed_sites (run notebook) = call_sites notebook \<and>
   distinct (call_sites notebook) \<and>
   length (call_sites notebook) = 38"
  unfolding notebook_run
  by (simp add: executed_sites_def expressions_def cells)

subsection \<open>C6: everything is delegated\<close>

text \<open>
  C6: the notebook defines no function (so no recursive one) and no class, and contains
  no operator or subscript expression: its expressions are names, attributes, literals
  and calls. Every call of the run is a call of an attribute of the \<open>tensorflow\<close>
  module or of an object a framework call returned, except the two calls of the builtin
  \<open>print\<close>.
\<close>

theorem all_computation_delegated:
  "\<not> list_ex is_function_def (statements notebook) \<and>
   \<not> list_ex is_class_def (statements notebook) \<and>
   \<not> list_ex is_lambda (expressions notebook) \<and>
   \<not> list_ex is_operation (expressions notebook) \<and>
   filter (\<lambda>e. \<not> framework_call e) (trace (run notebook)) = calls_to ''print'' (run notebook) \<and>
   list_all builtin_print (calls_to ''print'' (run notebook)) \<and>
   length (filter framework_call (trace (run notebook))) = 36"
  unfolding notebook_run
  by (simp add: observations framework_call_def builtin_print_def expressions_def cells)

subsection \<open>C7: what is printed\<close>

text \<open>
  C7: the run calls \<open>evaluate\<close> once, on the normalized test images and the test
  labels; the result is unpacked into \<open>loss\<close> and \<open>accuracy\<close>, and the two
  \<open>print\<close> calls are given the label text and, unchanged, the first and the second
  component of that result.
\<close>

theorem prints_evaluation_result:
  "trace (run notebook) ! 35 =
     Event 222 (VAttr dense_model ''evaluate'') [x_test_normalized, y_test_loaded] [] \<and>
   calls_to ''evaluate'' (run notebook) = [trace (run notebook) ! 35] \<and>
   variable (run notebook) ''loss'' = Some (VItem test_metrics 0) \<and>
   variable (run notebook) ''accuracy'' = Some (VItem test_metrics 1) \<and>
   calls_to ''print'' (run notebook) =
     [Event 227 (VBuiltin ''print'') [VStr ''Loss: '', VItem test_metrics 0] [],
      Event 228 (VBuiltin ''print'') [VStr ''Accuracy: '', VItem test_metrics 1] []] \<and>
   drop 36 (trace (run notebook)) = calls_to ''print'' (run notebook)"
  by (simp add: notebook_run observations)

subsection \<open>C8: no persistence\<close>

text \<open>
  C8: no call of the run saves or loads a model. The lines of the source that mention
  \<open>load_model\<close> are lines 223, 224 and 225, all three comments; no line mentions
  \<open>save\<close>; and the run of the notebook is the run of its statements, comments left out.
\<close>

theorem no_persistence:
  "\<not> list_ex persists (trace (run notebook)) \<and>
   map line_no (filter (mentions ''load_model'') notebook) = [223, 224, 225] \<and>
   list_all is_comment (filter (mentions ''load_model'') notebook) \<and>
   filter (mentions ''save'') notebook = [] \<and>
   run (filter (\<lambda>l. \<not> is_comment l) notebook) = run notebook"
proof -
  have "\<not> list_ex persists (trace (run notebook))"
    by (simp add: notebook_run persists_def persistence_functions_def)
  moreover have "map line_no (filter (mentions ''load_model'') notebook) = [223, 224, 225]"
    by (simp add: cells expressions_def)
  moreover have "list_all is_comment (filter (mentions ''load_model'') notebook)"
    by (simp add: cells expressions_def)
  moreover have "filter (mentions ''save'') notebook = []"
    by (simp add: cells expressions_def)
  ultimately show ?thesis
    by (simp only: run_skips_comments simp_thms)
qed

subsection \<open>C9: the labels\<close>

text \<open>
  C9: the first call of the run is \<open>load_data\<close>; \<open>y_train\<close> and \<open>y_test\<close> are
  bound once, to the components of its result, and never rebound. Both \<open>fit\<close> calls
  get \<open>y_train\<close> and the \<open>evaluate\<close> call gets \<open>y_test\<close> as second argument, as
  loaded; no other call is passed the labels, in particular no \<open>normalize\<close> call.
\<close>

theorem labels_unchanged:
  "trace (run notebook) ! 0 =
     Event 37 (VAttr (tfk ''datasets'' ''mnist'') ''load_data'') [] [] \<and>
   filter (\<lambda>b. fst b = ''y_train'') (env (run notebook)) = [(''y_train'', y_train_loaded)] \<and>
   filter (\<lambda>b. fst b = ''y_test'') (env (run notebook)) = [(''y_test'', y_test_loaded)] \<and>
   map (\<lambda>e. drop 1 (args e)) (calls_to ''fit'' (run notebook)) =
     [[y_train_loaded], [y_train_loaded]] \<and>
   map (\<lambda>e. drop 1 (args e)) (calls_to ''evaluate'' (run notebook)) = [[y_test_loaded]] \<and>
   filter (passes y_train_loaded) (trace (run notebook)) = calls_to ''fit'' (run notebook) \<and>
   filter (passes y_test_loaded) (trace (run notebook)) = calls_to ''evaluate'' (run notebook) \<and>
   map args (calls_to ''normalize'' (run notebook)) = [[x_train_raw], [x_test_raw]]"
  by (simp add: notebook_run observations passes_def)

subsection \<open>C10: the two training regimes\<close>

text \<open>
  C10: the run has two \<open>fit\<close> calls. The first, on the dense model, passes
  \<open>epochs=3\<close> and no batch size (the framework's default applies); the second, on the
  SimpleNet model, passes \<open>epochs=10\<close> and \<open>batch_size=64\<close>. Both are given the
  normalized training images and the loaded training labels.
\<close>

theorem two_training_regimes:
  "calls_to ''fit'' (run notebook) =
     [Event 99 (VAttr dense_model ''fit'') [x_train_normalized, y_train_loaded]
        [(''epochs'', VNum 3)],
      Event 186 (VAttr simplenet_model ''fit'') [x_train_normalized, y_train_loaded]
        [(''epochs'', VNum 10), (''batch_size'', VNum 64)]] \<and>
   map (\<lambda>e. map_of (kwargs e) ''batch_size'') (calls_to ''fit'' (run notebook)) =
     [None, Some (VNum 64)] \<and>
   trace (run notebook) ! 1 =
     Event 40 (tfk ''utils'' ''normalize'') [x_train_raw] [(''axis'', VNum 1)] \<and>
   layers_of dense_model (run notebook) = [''Flatten'', ''Dense'', ''Dense'', ''Dense''] \<and>
   layers_of simplenet_model (run notebook) =
     [''Conv2D'', ''BatchNormalization'', ''MaxPooling2D'',
      ''Conv2D'', ''BatchNormalization'', ''MaxPooling2D'',
      ''Flatten'', ''Dense'', ''Dense'']"
  by (simp add: notebook_run observations)

end
